theory Spec2Isabelle
  imports Main "HOL-Library.Word"
begin

section \<open>Guest-side helper types of wit-guest.h\<close>

text \<open>
  The header defines four classes in namespace \<open>wit\<close>: the owning buffers \<open>string\<close> and
  \<open>vector<T>\<close>, the base class \<open>ResourceExportBase<R>\<close> of a resource the guest exports, and
  the base class \<open>ResourceImportBase\<close> of a resource it imports. Each member function becomes
  a HOL function on the object's fields. A member function that mutates returns the
  object after the call; one that calls out of the header (\<open>free\<close>, \<open>R::ResourceDrop\<close>)
  returns the list of those calls, in the order they are made.
\<close>

subsection \<open>Pointers, memory and calls out of the header\<close>

text \<open>
  A pointer is an address of linear memory and \<open>nullptr\<close> is address 0. Objects of the
  header's classes are named by the address they live at (\<open>this\<close>), kept in a store.
\<close>

type_synonym addr = nat
type_synonym byte = "8 word"
type_synonym memory = "addr \<Rightarrow> byte"
type_synonym 'a store = "addr \<Rightarrow> 'a"

abbreviation nullptr :: addr where
  "nullptr \<equiv> 0"

text \<open>
  The calls the header makes to code outside it: \<open>free(p)\<close> of the C library and the
  static \<open>R::ResourceDrop(h)\<close> of the concrete resource class, which asks the host to drop
  handle \<open>h\<close>. The handle type \<open>'h\<close> depends on the build (see below).
\<close>

datatype 'h call = Free addr | ResourceDrop 'h

subsection \<open>class string\<close>

text \<open>
  The private members \<open>uint8_t const *data_\<close> and \<open>size_t length\<close>. An Isabelle name
  cannot end in an underscore, so \<open>data_\<close> is the field \<open>string_data_ptr\<close>.
\<close>

record wit_string =
  string_data_ptr :: addr
  string_length :: nat

text \<open>\<open>string(char const *d, size_t l) : data_(d), length(l) {}\<close>\<close>

definition string_ctor :: "addr \<Rightarrow> nat \<Rightarrow> wit_string" where
  "string_ctor d l = \<lparr>string_data_ptr = d, string_length = l\<rparr>"

text \<open>\<open>data()\<close> and \<open>size()\<close>.\<close>

definition string_data :: "wit_string \<Rightarrow> addr" where
  "string_data s = string_data_ptr s"

definition string_size :: "wit_string \<Rightarrow> nat" where
  "string_size s = string_length s"

text \<open>\<open>~string() { if (data_) { free(data_); } }\<close>: the calls the destructor makes.\<close>

definition string_dtor :: "wit_string \<Rightarrow> 'h call list" where
  "string_dtor s = (if string_data_ptr s \<noteq> nullptr then [Free (string_data_ptr s)] else [])"

text \<open>\<open>void leak() { data_ = nullptr; }\<close>\<close>

definition string_leak :: "wit_string \<Rightarrow> wit_string" where
  "string_leak s = s\<lparr>string_data_ptr := nullptr\<rparr>"

text \<open>
  The move constructor \<open>string(string &&b) : data_(b.data_), length(b.length)
  { b.data_ = nullptr; }\<close> builds a new object from \<open>b\<close>; the result is the new object and
  \<open>b\<close> after the call.
\<close>

definition string_move :: "wit_string \<Rightarrow> wit_string \<times> wit_string" where
  "string_move b =
     (\<lparr>string_data_ptr = string_data_ptr b, string_length = string_length b\<rparr>,
      b\<lparr>string_data_ptr := nullptr\<rparr>)"

text \<open>
  Move assignment \<open>string &operator=(string &&b)\<close> works on two existing objects, which
  may be the same one: \<open>this\<close> and \<open>b\<close> are addresses into a store of strings, and the
  statements run in the source's order, each on the store the previous one left.
\<close>

definition string_assign ::
    "wit_string store \<Rightarrow> addr \<Rightarrow> addr \<Rightarrow> wit_string store \<times> 'h call list" where
  "string_assign st this b =
     (let calls = (if string_data_ptr (st this) \<noteq> nullptr
                   then [Free (string_data_ptr (st this))] else []);
          st1 = st(this := (st this)\<lparr>string_data_ptr := string_data_ptr (st b)\<rparr>);
          st2 = st1(this := (st1 this)\<lparr>string_length := string_length (st1 b)\<rparr>);
          st3 = st2(b := (st2 b)\<lparr>string_data_ptr := nullptr\<rparr>)
      in (st3, calls))"

text \<open>
  A \<open>std::string_view\<close> is a pointer and a length; it owns nothing. The bytes it denotes
  are read from memory.
\<close>

record string_view =
  view_data :: addr
  view_size :: nat

definition view_bytes :: "memory \<Rightarrow> string_view \<Rightarrow> byte list" where
  "view_bytes m v = map m [view_data v ..< view_data v + view_size v]"

text \<open>\<open>get_view()\<close> returns \<open>std::string_view((const char *)data_, length)\<close>.\<close>

definition string_get_view :: "wit_string \<Rightarrow> string_view" where
  "string_get_view s = \<lparr>view_data = string_data_ptr s, view_size = string_length s\<rparr>"

text \<open>
  \<open>memcpy(dst, src, n)\<close> of the C library: the \<open>n\<close> bytes at \<open>src\<close> are written at \<open>dst\<close>,
  every other byte keeps its value. (C requires the two regions not to overlap.)
\<close>

definition memcpy :: "memory \<Rightarrow> addr \<Rightarrow> addr \<Rightarrow> nat \<Rightarrow> memory" where
  "memcpy m dst src n = (\<lambda>a. if dst \<le> a \<and> a < dst + n then m (src + (a - dst)) else m a)"

text \<open>
  \<open>static string from_view(std::string_view v)\<close>:
  \<^verbatim>\<open>char* addr = (char*)malloc(v.size());
memcpy(addr, v.data(), v.size());
return string(addr, v.size());\<close>
  \<open>malloc\<close> belongs to the C library, not to the header, and is a parameter: it maps the
  requested size to the pointer it returns, \<open>nullptr\<close> when it cannot satisfy the request.
  The function has a single path: the pointer \<open>malloc\<close> returned is not tested before it is
  written through and stored. ISO C leaves a copy through a null pointer undefined; in the
  linear memory of a guest module address 0 is ordinary memory and the bytes are written
  there, which is what \<open>memcpy\<close> above does. The result is the memory after the copy and
  the string returned.
\<close>

definition string_from_view :: "(nat \<Rightarrow> addr) \<Rightarrow> memory \<Rightarrow> string_view \<Rightarrow> memory \<times> wit_string" where
  "string_from_view malloc m v =
     (let addr = malloc (view_size v);
          m' = memcpy m addr (view_data v) (view_size v)
      in (m', string_ctor addr (view_size v)))"

subsection \<open>class vector\<close>

text \<open>
  The private members \<open>T *data_\<close> and \<open>size_t length\<close>. The member functions modelled here
  never read an element, so the record does not depend on \<open>T\<close>.
\<close>

record wit_vector =
  vector_data_ptr :: addr
  vector_length :: nat

text \<open>\<open>vector(T *d, size_t l) : data_(d), length(l) {}\<close> and \<open>size()\<close>.\<close>

definition vector_ctor :: "addr \<Rightarrow> nat \<Rightarrow> wit_vector" where
  "vector_ctor d l = \<lparr>vector_data_ptr = d, vector_length = l\<rparr>"

definition vector_size :: "wit_vector \<Rightarrow> nat" where
  "vector_size v = vector_length v"

text \<open>\<open>~vector() { if (data_) { free(data_); } }\<close>\<close>

definition vector_dtor :: "wit_vector \<Rightarrow> 'h call list" where
  "vector_dtor v = (if vector_data_ptr v \<noteq> nullptr then [Free (vector_data_ptr v)] else [])"

text \<open>\<open>void leak() { data_ = nullptr; }\<close>\<close>

definition vector_leak :: "wit_vector \<Rightarrow> wit_vector" where
  "vector_leak v = v\<lparr>vector_data_ptr := nullptr\<rparr>"

text \<open>
  The move constructor \<open>vector(vector &&b) : data_(b.data_), length(b.length)
  { b.data_ = nullptr; }\<close>.
\<close>

definition vector_move :: "wit_vector \<Rightarrow> wit_vector \<times> wit_vector" where
  "vector_move b =
     (\<lparr>vector_data_ptr = vector_data_ptr b, vector_length = vector_length b\<rparr>,
      b\<lparr>vector_data_ptr := nullptr\<rparr>)"

text \<open>
  Move assignment, statement for statement the one of \<open>string\<close>. Its \<open>free\<close> is written
  \<open>free(const_cast<uint8_t *>(data_))\<close>, a cast that compiles only where \<open>T\<close> is
  \<open>uint8_t\<close>; the model is of the instances that compile.
\<close>

definition vector_assign ::
    "wit_vector store \<Rightarrow> addr \<Rightarrow> addr \<Rightarrow> wit_vector store \<times> 'h call list" where
  "vector_assign st this b =
     (let calls = (if vector_data_ptr (st this) \<noteq> nullptr
                   then [Free (vector_data_ptr (st this))] else []);
          st1 = st(this := (st this)\<lparr>vector_data_ptr := vector_data_ptr (st b)\<rparr>);
          st2 = st1(this := (st1 this)\<lparr>vector_length := vector_length (st1 b)\<rparr>);
          st3 = st2(b := (st2 b)\<lparr>vector_data_ptr := nullptr\<rparr>)
      in (st3, calls))"

subsection \<open>class ResourceExportBase\<close>

text \<open>
  The header has two builds. Without \<open>WIT_SYMMETRIC\<close> a handle is an \<open>int32_t\<close> and the
  constant \<open>invalid\<close> is \<open>-1\<close>; with \<open>WIT_SYMMETRIC\<close> a handle is a \<open>uint8_t *\<close> and
  \<open>invalid\<close> is \<open>nullptr\<close>. A definition that reads \<open>invalid\<close> or tests a handle exists
  once per build; the one of the \<open>WIT_SYMMETRIC\<close> build carries the suffix \<open>_symmetric\<close>.
\<close>

type_synonym handle_t = "32 word"
type_synonym handle_t_symmetric = addr

definition invalid :: handle_t where
  "invalid = - 1"

definition invalid_symmetric :: handle_t_symmetric where
  "invalid_symmetric = nullptr"

text \<open>The public member \<open>handle_t handle\<close>.\<close>

record 'h ResourceExportBase =
  Export_handle :: 'h

text \<open>
  \<open>ResourceExportBase() : handle(R::ResourceNew((R *)this)) {}\<close>. The static
  \<open>R::ResourceNew\<close> belongs to the concrete resource class \<open>R\<close> and is a parameter: it maps
  the address of the object to the handle it returns. The constructor stores that handle
  and has no other statement.
\<close>

definition Export_ctor :: "(addr \<Rightarrow> 'h) \<Rightarrow> addr \<Rightarrow> 'h ResourceExportBase" where
  "Export_ctor ResourceNew this = \<lparr>Export_handle = ResourceNew this\<rparr>"

text \<open>\<open>~ResourceExportBase() {}\<close>: the calls the destructor makes.\<close>

definition Export_dtor :: "'h ResourceExportBase \<Rightarrow> 'h call list" where
  "Export_dtor r = []"

definition Export_get_handle :: "'h ResourceExportBase \<Rightarrow> 'h" where
  "Export_get_handle r = Export_handle r"

text \<open>
  \<open>handle_t into_handle() { handle_t result = handle; handle = invalid; return result; }\<close>:
  the value returned and the object after the call.
\<close>

definition Export_into_handle ::
    "handle_t ResourceExportBase \<Rightarrow> handle_t \<times> handle_t ResourceExportBase" where
  "Export_into_handle r =
     (let result = Export_handle r in (result, r\<lparr>Export_handle := invalid\<rparr>))"

definition Export_into_handle_symmetric ::
    "handle_t_symmetric ResourceExportBase
       \<Rightarrow> handle_t_symmetric \<times> handle_t_symmetric ResourceExportBase" where
  "Export_into_handle_symmetric r =
     (let result = Export_handle r in (result, r\<lparr>Export_handle := invalid_symmetric\<rparr>))"

text \<open>
  The deleter \<open>Deregister::operator()(R *ptr)\<close>: the calls it makes. The test is
  \<open>ptr->handle >= 0\<close> on the signed 32-bit handle, and \<open>ptr->handle != nullptr\<close> in the
  \<open>WIT_SYMMETRIC\<close> build; the body is the one call \<open>R::ResourceDrop(ptr->handle)\<close>.
\<close>

definition Deregister :: "handle_t ResourceExportBase \<Rightarrow> handle_t call list" where
  "Deregister ptr =
     (if 0 \<le> sint (Export_handle ptr) then [ResourceDrop (Export_handle ptr)] else [])"

definition Deregister_symmetric ::
    "handle_t_symmetric ResourceExportBase \<Rightarrow> handle_t_symmetric call list" where
  "Deregister_symmetric ptr =
     (if Export_handle ptr \<noteq> nullptr then [ResourceDrop (Export_handle ptr)] else [])"

text \<open>
  \<open>typedef std::unique_ptr<R, Deregister> Owned\<close>. An \<open>Owned\<close> is empty or points to a
  resource object. The destructor of \<open>std::unique_ptr\<close> calls the deleter on the pointer
  it holds, and nothing when it holds none.
\<close>

type_synonym Owned = "handle_t ResourceExportBase option"
type_synonym Owned_symmetric = "handle_t_symmetric ResourceExportBase option"

definition Owned_dtor :: "Owned \<Rightarrow> handle_t call list" where
  "Owned_dtor p = (case p of None \<Rightarrow> [] | Some r \<Rightarrow> Deregister r)"

definition Owned_dtor_symmetric :: "Owned_symmetric \<Rightarrow> handle_t_symmetric call list" where
  "Owned_dtor_symmetric p = (case p of None \<Rightarrow> [] | Some r \<Rightarrow> Deregister_symmetric r)"

subsection \<open>class ResourceImportBase\<close>

text \<open>The protected member \<open>handle_t handle\<close>, with the same two builds.\<close>

record 'h ResourceImportBase =
  Import_handle :: 'h

text \<open>\<open>ResourceImportBase(handle_t h = invalid) : handle(h) {}\<close>\<close>

definition Import_ctor :: "'h \<Rightarrow> 'h ResourceImportBase" where
  "Import_ctor h = \<lparr>Import_handle = h\<rparr>"

text \<open>
  The move constructor \<open>ResourceImportBase(ResourceImportBase &&r) : handle(r.handle)
  { r.handle = invalid; }\<close>: the new object and \<open>r\<close> after the call.
\<close>

definition Import_move ::
    "handle_t ResourceImportBase \<Rightarrow> handle_t ResourceImportBase \<times> handle_t ResourceImportBase" where
  "Import_move r = (\<lparr>Import_handle = Import_handle r\<rparr>, r\<lparr>Import_handle := invalid\<rparr>)"

definition Import_move_symmetric ::
    "handle_t_symmetric ResourceImportBase
       \<Rightarrow> handle_t_symmetric ResourceImportBase \<times> handle_t_symmetric ResourceImportBase" where
  "Import_move_symmetric r =
     (\<lparr>Import_handle = Import_handle r\<rparr>, r\<lparr>Import_handle := invalid_symmetric\<rparr>)"

text \<open>\<open>void set_handle(handle_t h) { handle = h; }\<close> and \<open>get_handle()\<close>.\<close>

definition Import_set_handle :: "'h ResourceImportBase \<Rightarrow> 'h \<Rightarrow> 'h ResourceImportBase" where
  "Import_set_handle r h = r\<lparr>Import_handle := h\<rparr>"

definition Import_get_handle :: "'h ResourceImportBase \<Rightarrow> 'h" where
  "Import_get_handle r = Import_handle r"

text \<open>\<open>handle_t into_handle() { handle_t h = handle; handle = invalid; return h; }\<close>\<close>

definition Import_into_handle ::
    "handle_t ResourceImportBase \<Rightarrow> handle_t \<times> handle_t ResourceImportBase" where
  "Import_into_handle r = (let h = Import_handle r in (h, r\<lparr>Import_handle := invalid\<rparr>))"

definition Import_into_handle_symmetric ::
    "handle_t_symmetric ResourceImportBase
       \<Rightarrow> handle_t_symmetric \<times> handle_t_symmetric ResourceImportBase" where
  "Import_into_handle_symmetric r =
     (let h = Import_handle r in (h, r\<lparr>Import_handle := invalid_symmetric\<rparr>))"

text \<open>
  Move assignment
  \<^verbatim>\<open>assert(handle == invalid);
handle = r.handle;
r.handle = invalid;
return *this;\<close>
  on two objects of a store, which may be the same one. The \<open>assert\<close> is the C library's,
  in a build where it is active: a false condition ends the program, and the call returns the
  failure instead of a store.
\<close>

datatype failure = Assertion_failed

definition Import_assign ::
    "handle_t ResourceImportBase store \<Rightarrow> addr \<Rightarrow> addr
       \<Rightarrow> failure + handle_t ResourceImportBase store" where
  "Import_assign st this r =
     (if Import_handle (st this) \<noteq> invalid then Inl Assertion_failed
      else let st1 = st(this := (st this)\<lparr>Import_handle := Import_handle (st r)\<rparr>);
               st2 = st1(r := (st1 r)\<lparr>Import_handle := invalid\<rparr>)
           in Inr st2)"

definition Import_assign_symmetric ::
    "handle_t_symmetric ResourceImportBase store \<Rightarrow> addr \<Rightarrow> addr
       \<Rightarrow> failure + handle_t_symmetric ResourceImportBase store" where
  "Import_assign_symmetric st this r =
     (if Import_handle (st this) \<noteq> invalid_symmetric then Inl Assertion_failed
      else let st1 = st(this := (st this)\<lparr>Import_handle := Import_handle (st r)\<rparr>);
               st2 = st1(r := (st1 r)\<lparr>Import_handle := invalid_symmetric\<rparr>)
           in Inr st2)"

section \<open>Owning buffers\<close>

subsection \<open>Leaking\<close>

text \<open>
  C5. A buffer that was leaked owns nothing: after \<open>leak()\<close> the data pointer is null, and
  the destructor of the leaked instance calls \<open>free\<close> not at all. This holds for \<open>string\<close>
  and for \<open>vector\<close>, whatever the buffer held before.
\<close>

theorem leak_then_destroy_frees_nothing:
  "string_data_ptr (string_leak s) = nullptr \<and>
   (string_dtor (string_leak s) :: 'h call list) = [] \<and>
   vector_data_ptr (vector_leak v) = nullptr \<and>
   (vector_dtor (vector_leak v) :: 'h call list) = []"
  by (simp add: string_leak_def string_dtor_def vector_leak_def vector_dtor_def)

subsection \<open>Moving\<close>

text \<open>
  C6. Move construction hands the data pointer and the length of the source to the new
  object and nulls the source's data pointer. Move assignment does the same between two
  objects \<open>this\<close> and \<open>b\<close>, and before it transfers it frees the buffer the destination
  held: the one call to \<open>free\<close> is on the destination's old pointer, and there is none when
  that pointer was null. Source and destination are two objects, \<open>this \<noteq> b\<close>: an rvalue
  reference argument is taken to be the only reference to its object. The statement is
  the same for \<open>string\<close> and \<open>vector\<close>.
\<close>

theorem move_transfers_and_assignment_frees_first:
  assumes "this \<noteq> b"
  shows "string_data_ptr (fst (string_move s)) = string_data_ptr s \<and>
         string_length (fst (string_move s)) = string_length s \<and>
         string_data_ptr (snd (string_move s)) = nullptr \<and>
         string_data_ptr (fst (string_assign st this b :: _ \<times> 'h call list) this)
           = string_data_ptr (st b) \<and>
         string_length (fst (string_assign st this b :: _ \<times> 'h call list) this)
           = string_length (st b) \<and>
         string_data_ptr (fst (string_assign st this b :: _ \<times> 'h call list) b) = nullptr \<and>
         (snd (string_assign st this b) :: 'h call list)
           = (if string_data_ptr (st this) \<noteq> nullptr
              then [Free (string_data_ptr (st this))] else []) \<and>
         vector_data_ptr (fst (vector_move v)) = vector_data_ptr v \<and>
         vector_length (fst (vector_move v)) = vector_length v \<and>
         vector_data_ptr (snd (vector_move v)) = nullptr \<and>
         vector_data_ptr (fst (vector_assign vs this b :: _ \<times> 'h call list) this)
           = vector_data_ptr (vs b) \<and>
         vector_length (fst (vector_assign vs this b :: _ \<times> 'h call list) this)
           = vector_length (vs b) \<and>
         vector_data_ptr (fst (vector_assign vs this b :: _ \<times> 'h call list) b) = nullptr \<and>
         (snd (vector_assign vs this b) :: 'h call list)
           = (if vector_data_ptr (vs this) \<noteq> nullptr
              then [Free (vector_data_ptr (vs this))] else [])"
  using assms
  by (simp add: string_move_def string_assign_def vector_move_def vector_assign_def Let_def)

text \<open>
  The theorem at two buffers: the object at address 8 owns the block at 4096 (5 bytes),
  the object at 16 owns the block at 8192 (7 bytes), and the second is moved into the
  first. The block at 4096 is freed, the first object ends with the block at 8192.
\<close>

theorem move_transfers_and_assignment_frees_first_witness:
  "(8::addr) \<noteq> 16 \<and>
   string_data_ptr (fst (string_assign
      (\<lambda>a. if a = 8 then string_ctor 4096 5 else string_ctor 8192 7) 8 16 :: _ \<times> unit call list) 8)
     = 8192 \<and>
   string_length (fst (string_assign
      (\<lambda>a. if a = 8 then string_ctor 4096 5 else string_ctor 8192 7) 8 16 :: _ \<times> unit call list) 8)
     = 7 \<and>
   string_data_ptr (fst (string_assign
      (\<lambda>a. if a = 8 then string_ctor 4096 5 else string_ctor 8192 7) 8 16 :: _ \<times> unit call list) 16)
     = nullptr \<and>
   (snd (string_assign
      (\<lambda>a. if a = 8 then string_ctor 4096 5 else string_ctor 8192 7) 8 16) :: unit call list)
     = [Free 4096] \<and>
   (snd (vector_assign
      (\<lambda>a. if a = 8 then vector_ctor 4096 5 else vector_ctor 8192 7) 8 16) :: unit call list)
     = [Free 4096]"
proof -
  have d: "(8::addr) \<noteq> 16" by simp
  show ?thesis
    using move_transfers_and_assignment_frees_first
      [OF d, where ?'h = unit
         and st = "\<lambda>a. if a = 8 then string_ctor 4096 5 else string_ctor 8192 7"
         and vs = "\<lambda>a. if a = 8 then vector_ctor 4096 5 else vector_ctor 8192 7"]
    by (simp add: string_ctor_def vector_ctor_def)
qed

text \<open>
  Why the two objects have to differ: assigning an object to itself frees its buffer and
  then nulls its own pointer, so nothing is transferred.
\<close>

lemma string_assign_self:
  "string_data_ptr (fst (string_assign st a a :: _ \<times> 'h call list) a) = nullptr \<and>
   (snd (string_assign st a a) :: 'h call list) = string_dtor (st a)"
  by (simp add: string_assign_def string_dtor_def Let_def)

subsection \<open>Copying from a view\<close>

text \<open>The bytes \<open>memcpy\<close> wrote, read back at the destination, are the source's bytes.\<close>

lemma view_bytes_memcpy_dst:
  "view_bytes (memcpy m dst (view_data v) (view_size v))
     \<lparr>view_data = dst, view_size = view_size v\<rparr> = view_bytes m v"
  by (rule nth_equalityI) (simp_all add: view_bytes_def memcpy_def)

text \<open>A view that lies apart from the destination reads the same bytes after the copy.\<close>

lemma view_bytes_memcpy_disjoint:
  "dst + n \<le> view_data v \<or> view_data v + view_size v \<le> dst \<Longrightarrow>
   view_bytes (memcpy m dst src n) v = view_bytes m v"
  by (auto simp add: view_bytes_def memcpy_def)

text \<open>
  C4. Round trip of copy then view. When \<open>malloc\<close> returned a block (a non-null pointer
  whose \<open>v.size()\<close> bytes lie apart from the bytes of the source view \<open>v\<close>), the buffer \<open>B\<close>
  that \<open>from_view(v)\<close> returns satisfies: the bytes of \<open>B.get_view()\<close> in the memory after
  the call are the bytes of \<open>v\<close>, the bytes of \<open>v\<close> are unchanged by the call, and \<open>B.size()\<close>
  is \<open>v.size()\<close>.
\<close>

theorem from_view_round_trip:
  assumes "malloc (view_size v) \<noteq> nullptr"
    and "malloc (view_size v) + view_size v \<le> view_data v \<or>
         view_data v + view_size v \<le> malloc (view_size v)"
  shows "view_bytes (fst (string_from_view malloc m v))
           (string_get_view (snd (string_from_view malloc m v))) = view_bytes m v \<and>
         view_bytes (fst (string_from_view malloc m v)) v = view_bytes m v \<and>
         string_size (snd (string_from_view malloc m v)) = view_size v"
proof -
  let ?p = "malloc (view_size v)"
  have "view_bytes (memcpy m ?p (view_data v) (view_size v))
          \<lparr>view_data = ?p, view_size = view_size v\<rparr> = view_bytes m v"
    by (rule view_bytes_memcpy_dst)
  then have copy: "view_bytes (fst (string_from_view malloc m v))
                     (string_get_view (snd (string_from_view malloc m v))) = view_bytes m v"
    by (simp add: string_from_view_def string_get_view_def string_ctor_def Let_def)
  have src: "view_bytes (fst (string_from_view malloc m v)) v = view_bytes m v"
    using assms(2) by (simp add: string_from_view_def view_bytes_memcpy_disjoint Let_def)
  have "string_size (snd (string_from_view malloc m v)) = view_size v"
    by (simp add: string_from_view_def string_size_def string_ctor_def Let_def)
  with copy src show ?thesis by simp
qed

text \<open>
  The theorem at a view of the 5 bytes at address 4096, in a memory whose byte at address
  \<open>a\<close> is \<open>a mod 256\<close>, with \<open>malloc\<close> returning the block at 8192: the copy reads
  \<open>0, 1, 2, 3, 4\<close>.
\<close>

theorem from_view_round_trip_witness:
  "(\<lambda>n::nat. 8192::addr) 5 \<noteq> nullptr \<and> (4096::addr) + 5 \<le> 8192 \<and>
   view_bytes (fst (string_from_view (\<lambda>n. 8192) (\<lambda>a. of_nat a) \<lparr>view_data = 4096, view_size = 5\<rparr>))
     (string_get_view
        (snd (string_from_view (\<lambda>n. 8192) (\<lambda>a. of_nat a) \<lparr>view_data = 4096, view_size = 5\<rparr>)))
     = [0, 1, 2, 3, 4] \<and>
   string_size (snd (string_from_view (\<lambda>n. 8192) (\<lambda>a. of_nat a)
     \<lparr>view_data = 4096, view_size = 5\<rparr>)) = 5"
proof -
  have a: "(\<lambda>n::nat. 8192::addr) (view_size \<lparr>view_data = 4096, view_size = 5\<rparr>) \<noteq> nullptr"
    by simp
  have b: "(\<lambda>n::nat. 8192::addr) (view_size \<lparr>view_data = 4096, view_size = 5\<rparr>)
             + view_size \<lparr>view_data = 4096, view_size = 5\<rparr>
             \<le> view_data \<lparr>view_data = 4096, view_size = 5\<rparr> \<or>
           view_data \<lparr>view_data = 4096, view_size = 5\<rparr>
             + view_size \<lparr>view_data = 4096, view_size = 5\<rparr>
             \<le> (\<lambda>n::nat. 8192::addr) (view_size \<lparr>view_data = 4096, view_size = 5\<rparr>)"
    by simp
  have c: "view_bytes (\<lambda>a. of_nat a) \<lparr>view_data = 4096, view_size = 5\<rparr> = [0, 1, 2, 3, 4 :: byte]"
    by (simp add: view_bytes_def upt_rec)
  show ?thesis
    using from_view_round_trip [OF a b, of "\<lambda>a. of_nat a"] c by simp
qed

text \<open>
  C3. The claim is that \<open>from_view\<close> reports an allocation error when the allocator cannot
  satisfy the request and never returns an empty or invalid buffer then. The code at a view
  of 5 bytes with \<open>malloc\<close> returning \<open>nullptr\<close>: the call returns, as it always does, the
  string built from the pointer and the size, here a null data pointer with length 5. The
  caller is told of no error, and the destructor of the returned string frees nothing.
\<close>

theorem from_view_null_allocation_unreported:
  "snd (string_from_view (\<lambda>n. nullptr) m \<lparr>view_data = 4096, view_size = 5\<rparr>)
     = \<lparr>string_data_ptr = nullptr, string_length = 5\<rparr> \<and>
   (string_dtor (snd (string_from_view (\<lambda>n. nullptr) m \<lparr>view_data = 4096, view_size = 5\<rparr>))
      :: 'h call list) = []"
  by (simp add: string_from_view_def string_ctor_def string_dtor_def Let_def)

section \<open>Exported resources\<close>

text \<open>The deleter makes no call but \<open>ResourceDrop\<close> on the stored handle.\<close>

lemma Deregister_only_drops:
  "set (Deregister r) \<subseteq> {ResourceDrop (Export_handle r)}"
  by (auto simp add: Deregister_def)

lemma Deregister_symmetric_only_drops:
  "set (Deregister_symmetric r) \<subseteq> {ResourceDrop (Export_handle r)}"
  by (auto simp add: Deregister_symmetric_def)

text \<open>On an object whose handle is \<open>invalid\<close> the deleter makes no call.\<close>

lemma Deregister_invalid: "Deregister (r\<lparr>Export_handle := invalid\<rparr>) = []"
  by (simp add: Deregister_def invalid_def)

lemma Deregister_symmetric_invalid:
  "Deregister_symmetric (r\<lparr>Export_handle := invalid_symmetric\<rparr>) = []"
  by (simp add: Deregister_symmetric_def invalid_symmetric_def)

text \<open>
  The test of the 32-bit build is on the sign, not on the sentinel alone: the deleter
  makes no call for any negative handle.
\<close>

lemma Deregister_negative: "sint (Export_handle r) < 0 \<Longrightarrow> Deregister r = []"
  by (simp add: Deregister_def)

text \<open>
  C1. The scope-exit path of an exported resource is the destructor of its \<open>Owned\<close>
  pointer, which runs the deleter \<open>Deregister\<close> on the object. The deleter never calls
  \<open>free\<close>; the only call it can make is \<open>R::ResourceDrop\<close> on the stored handle, and it makes
  exactly that call when the handle passes its test (\<open>handle >= 0\<close>, or
  \<open>handle != nullptr\<close> in the \<open>WIT_SYMMETRIC\<close> build). The destructor
  \<open>~ResourceExportBase\<close>, which runs when the host has the object destroyed, makes no
  call at all, so it does not deregister.
\<close>

theorem scope_exit_notifies_and_destructor_is_silent:
  "Owned_dtor (Some r) = Deregister r \<and>
   (\<forall>p. Free p \<notin> set (Deregister r)) \<and>
   set (Deregister r) \<subseteq> {ResourceDrop (Export_handle r)} \<and>
   (0 \<le> sint (Export_handle r) \<longrightarrow> Deregister r = [ResourceDrop (Export_handle r)]) \<and>
   (Export_dtor r :: handle_t call list) = [] \<and>
   Owned_dtor_symmetric (Some q) = Deregister_symmetric q \<and>
   (\<forall>p. Free p \<notin> set (Deregister_symmetric q)) \<and>
   set (Deregister_symmetric q) \<subseteq> {ResourceDrop (Export_handle q)} \<and>
   (Export_handle q \<noteq> nullptr \<longrightarrow> Deregister_symmetric q = [ResourceDrop (Export_handle q)]) \<and>
   (Export_dtor q :: handle_t_symmetric call list) = []"
proof -
  have a: "\<forall>p. Free p \<notin> set (Deregister r)"
    using Deregister_only_drops [of r] by auto
  have b: "\<forall>p. Free p \<notin> set (Deregister_symmetric q)"
    using Deregister_symmetric_only_drops [of q] by auto
  have c: "0 \<le> sint (Export_handle r) \<longrightarrow> Deregister r = [ResourceDrop (Export_handle r)]"
    by (simp add: Deregister_def)
  have d: "Export_handle q \<noteq> nullptr \<longrightarrow>
           Deregister_symmetric q = [ResourceDrop (Export_handle q)]"
    by (simp add: Deregister_symmetric_def)
  show ?thesis
    using a b c d Deregister_only_drops [of r] Deregister_symmetric_only_drops [of q]
    by (simp add: Owned_dtor_def Owned_dtor_symmetric_def Export_dtor_def)
qed

text \<open>The theorem at a resource with handle 7, and at one with the handle 4096.\<close>

theorem scope_exit_notifies_and_destructor_is_silent_witness:
  "0 \<le> sint (Export_handle \<lparr>Export_handle = 7 :: handle_t\<rparr>) \<and>
   Deregister \<lparr>Export_handle = 7\<rparr> = [ResourceDrop 7] \<and>
   Export_handle \<lparr>Export_handle = 4096 :: handle_t_symmetric\<rparr> \<noteq> nullptr \<and>
   Deregister_symmetric \<lparr>Export_handle = 4096\<rparr> = [ResourceDrop 4096]"
  using scope_exit_notifies_and_destructor_is_silent
          [of "\<lparr>Export_handle = 7\<rparr>" "\<lparr>Export_handle = 4096\<rparr>"]
  by simp

text \<open>
  C2. \<open>into_handle()\<close> returns the handle the object stores and leaves \<open>invalid\<close> in its
  place. From then on no \<open>ResourceDrop\<close> is called: the deleter and the destructor of the
  owning \<open>Owned\<close> make no call on that object, a second \<open>into_handle()\<close> returns \<open>invalid\<close>,
  and the owner's destructor after the second call makes no call either. Both builds.
\<close>

theorem into_handle_once_then_no_drop:
  "fst (Export_into_handle r) = Export_get_handle r \<and>
   Export_get_handle (snd (Export_into_handle r)) = invalid \<and>
   Deregister (snd (Export_into_handle r)) = [] \<and>
   Owned_dtor (Some (snd (Export_into_handle r))) = [] \<and>
   fst (Export_into_handle (snd (Export_into_handle r))) = invalid \<and>
   Owned_dtor (Some (snd (Export_into_handle (snd (Export_into_handle r))))) = [] \<and>
   fst (Export_into_handle_symmetric q) = Export_get_handle q \<and>
   Export_get_handle (snd (Export_into_handle_symmetric q)) = invalid_symmetric \<and>
   Deregister_symmetric (snd (Export_into_handle_symmetric q)) = [] \<and>
   Owned_dtor_symmetric (Some (snd (Export_into_handle_symmetric q))) = [] \<and>
   fst (Export_into_handle_symmetric (snd (Export_into_handle_symmetric q))) = invalid_symmetric \<and>
   Owned_dtor_symmetric
     (Some (snd (Export_into_handle_symmetric (snd (Export_into_handle_symmetric q))))) = []"
  by (simp add: Export_into_handle_def Export_into_handle_symmetric_def Export_get_handle_def
        Owned_dtor_def Owned_dtor_symmetric_def Deregister_invalid Deregister_symmetric_invalid)

text \<open>
  C7, as claimed: \<open>get_handle()\<close> right after construction is never the sentinel. It fails
  where \<open>R::ResourceNew\<close> returns the sentinel: the constructor stores it, and the object at
  address 4096 is constructed with the handle \<open>invalid\<close>.
\<close>

theorem construction_unchecked_counterexample:
  "Export_get_handle (Export_ctor (\<lambda>this. invalid) 4096) = invalid \<and>
   Export_get_handle (Export_ctor (\<lambda>this. invalid_symmetric) 4096) = invalid_symmetric"
  by (simp add: Export_get_handle_def Export_ctor_def)

text \<open>
  C7, amended. \<open>get_handle()\<close> right after construction returns the handle that
  \<open>R::ResourceNew\<close> returned for the object. The constructor tests nothing and cannot fail,
  so the handle differs from the sentinel exactly when the one \<open>ResourceNew\<close> returned does.
\<close>

theorem construction_stores_ResourceNew_result:
  "Export_get_handle (Export_ctor ResourceNew this) = ResourceNew this \<and>
   (Export_get_handle (Export_ctor ResourceNew1 this) \<noteq> invalid)
     = (ResourceNew1 this \<noteq> invalid) \<and>
   (Export_get_handle (Export_ctor ResourceNew2 this) \<noteq> invalid_symmetric)
     = (ResourceNew2 this \<noteq> invalid_symmetric)"
  by (simp add: Export_get_handle_def Export_ctor_def)

section \<open>Imported resources\<close>

text \<open>Move assignment into a destination that holds a handle stops at the assertion.\<close>

lemma Import_assign_nonempty:
  "Import_handle (st this) \<noteq> invalid \<Longrightarrow> Import_assign st this r = Inl Assertion_failed"
  by (simp add: Import_assign_def)

lemma Import_assign_symmetric_nonempty:
  "Import_handle (st this) \<noteq> invalid_symmetric \<Longrightarrow>
   Import_assign_symmetric st this r = Inl Assertion_failed"
  by (simp add: Import_assign_symmetric_def)

text \<open>
  Move assignment into an empty destination returns a store in which the destination has
  the source's handle and the source has \<open>invalid\<close>, also when the two are one object.
\<close>

lemma Import_assign_empty:
  "Import_handle (st this) = invalid \<Longrightarrow>
   \<exists>st'. Import_assign st this r = Inr st' \<and>
         Import_handle (st' this) = Import_handle (st r) \<and> Import_handle (st' r) = invalid"
  by (auto simp add: Import_assign_def Let_def)

lemma Import_assign_symmetric_empty:
  "Import_handle (st this) = invalid_symmetric \<Longrightarrow>
   \<exists>st'. Import_assign_symmetric st this r = Inr st' \<and>
         Import_handle (st' this) = Import_handle (st r) \<and>
         Import_handle (st' r) = invalid_symmetric"
  by (auto simp add: Import_assign_symmetric_def Let_def)

text \<open>
  C8. Move assignment of an imported resource into a destination whose handle is not the
  sentinel fails at the assertion, and no store is returned: nothing was overwritten. Into
  a destination whose handle is the sentinel it succeeds, the destination then holds the
  handle the source held and the source holds the sentinel. Both builds.
\<close>

theorem move_assign_asserts_empty_destination:
  "(Import_handle (st this) \<noteq> invalid \<longrightarrow> Import_assign st this r = Inl Assertion_failed) \<and>
   (Import_handle (st this) = invalid \<longrightarrow>
      (\<exists>st'. Import_assign st this r = Inr st' \<and>
         Import_handle (st' this) = Import_handle (st r) \<and> Import_handle (st' r) = invalid)) \<and>
   (Import_handle (ss this) \<noteq> invalid_symmetric \<longrightarrow>
      Import_assign_symmetric ss this r = Inl Assertion_failed) \<and>
   (Import_handle (ss this) = invalid_symmetric \<longrightarrow>
      (\<exists>ss'. Import_assign_symmetric ss this r = Inr ss' \<and>
         Import_handle (ss' this) = Import_handle (ss r) \<and>
         Import_handle (ss' r) = invalid_symmetric))"
  using Import_assign_nonempty [of st this r] Import_assign_empty [of st this r]
    Import_assign_symmetric_nonempty [of ss this r] Import_assign_symmetric_empty [of ss this r]
  by blast

text \<open>
  The theorem at two objects, at addresses 8 and 16. With the handles 3 and 5 the
  assignment of the second to the first fails; with the first empty it succeeds and the
  first ends with 5. The same with the pointers 4096 and 8192 in the \<open>WIT_SYMMETRIC\<close> build.
\<close>

theorem move_assign_asserts_empty_destination_witness:
  "Import_handle ((\<lambda>a. Import_ctor (if a = 8 then 3 else 5)) 8) \<noteq> invalid \<and>
   Import_assign (\<lambda>a. Import_ctor (if a = 8 then 3 else 5)) 8 16 = Inl Assertion_failed \<and>
   Import_handle ((\<lambda>a. Import_ctor (if a = 8 then invalid else 5)) 8) = invalid \<and>
   (\<exists>st'. Import_assign (\<lambda>a. Import_ctor (if a = 8 then invalid else 5)) 8 16 = Inr st' \<and>
      Import_handle (st' 8) = 5 \<and> Import_handle (st' 16) = invalid) \<and>
   Import_handle ((\<lambda>a. Import_ctor (if a = 8 then 4096 else 8192)) 8) \<noteq> invalid_symmetric \<and>
   Import_assign_symmetric (\<lambda>a. Import_ctor (if a = 8 then 4096 else 8192)) 8 16
     = Inl Assertion_failed \<and>
   Import_handle ((\<lambda>a. Import_ctor (if a = 8 then invalid_symmetric else 8192)) 8)
     = invalid_symmetric \<and>
   (\<exists>ss'. Import_assign_symmetric
             (\<lambda>a. Import_ctor (if a = 8 then invalid_symmetric else 8192)) 8 16 = Inr ss' \<and>
      Import_handle (ss' 8) = 8192 \<and> Import_handle (ss' 16) = invalid_symmetric)"
  using move_assign_asserts_empty_destination
      [of "\<lambda>a. Import_ctor (if a = 8 then 3 else 5)" 8 16
          "\<lambda>a. Import_ctor (if a = 8 then 4096 else 8192)"]
    move_assign_asserts_empty_destination
      [of "\<lambda>a. Import_ctor (if a = 8 then invalid else 5)" 8 16
          "\<lambda>a. Import_ctor (if a = 8 then invalid_symmetric else 8192)"]
  by (simp add: Import_ctor_def invalid_def invalid_symmetric_def)

text \<open>
  C9. Move construction \<open>B = move(A)\<close> of an imported resource: \<open>B.get_handle()\<close> is the
  handle \<open>A\<close> held and \<open>A.get_handle()\<close> is the sentinel afterwards. Both builds, and for
  every handle \<open>A\<close> may hold, a live one in particular.
\<close>

theorem move_construct_transfers_handle:
  "Import_get_handle (fst (Import_move a)) = Import_get_handle a \<and>
   Import_get_handle (snd (Import_move a)) = invalid \<and>
   Import_get_handle (fst (Import_move_symmetric b)) = Import_get_handle b \<and>
   Import_get_handle (snd (Import_move_symmetric b)) = invalid_symmetric"
  by (simp add: Import_move_def Import_move_symmetric_def Import_get_handle_def)

text \<open>
  C10. \<open>set_handle(h)\<close> overwrites the stored handle whatever it was: the object after the
  call is the object \<open>ResourceImportBase(h)\<close> constructs, so nothing of the prior handle is
  left, and \<open>get_handle()\<close> returns \<open>h\<close>. The function has no assertion and makes no call. On
  a destination that holds a live handle, where move assignment fails at its assertion,
  \<open>set_handle\<close> of the same handle goes through. Both builds.
\<close>

theorem set_handle_overwrites_unconditionally:
  "Import_set_handle x h = Import_ctor h \<and>
   Import_get_handle (Import_set_handle x h) = h \<and>
   (Import_handle (st this) \<noteq> invalid \<longrightarrow>
      Import_assign st this b = Inl Assertion_failed \<and>
      Import_get_handle (Import_set_handle (st this) (Import_handle (st b)))
        = Import_handle (st b)) \<and>
   (Import_handle (ss this) \<noteq> invalid_symmetric \<longrightarrow>
      Import_assign_symmetric ss this b = Inl Assertion_failed \<and>
      Import_get_handle (Import_set_handle (ss this) (Import_handle (ss b)))
        = Import_handle (ss b))"
  using Import_assign_nonempty [of st this b] Import_assign_symmetric_nonempty [of ss this b]
  by (simp add: Import_set_handle_def Import_ctor_def Import_get_handle_def)

text \<open>
  The theorem at the object with handle 3 at address 8 and the one with handle 5 at 16
  (4096 and 8192 in the \<open>WIT_SYMMETRIC\<close> build).
\<close>

theorem set_handle_overwrites_unconditionally_witness:
  "Import_handle ((\<lambda>a. Import_ctor (if a = 8 then 3 else 5)) 8) \<noteq> invalid \<and>
   Import_assign (\<lambda>a. Import_ctor (if a = 8 then 3 else 5)) 8 16 = Inl Assertion_failed \<and>
   Import_get_handle (Import_set_handle (Import_ctor 3) (5 :: handle_t)) = 5 \<and>
   Import_handle ((\<lambda>a. Import_ctor (if a = 8 then 4096 else 8192)) 8) \<noteq> invalid_symmetric \<and>
   Import_assign_symmetric (\<lambda>a. Import_ctor (if a = 8 then 4096 else 8192)) 8 16
     = Inl Assertion_failed \<and>
   Import_get_handle (Import_set_handle (Import_ctor 4096) (8192 :: handle_t_symmetric)) = 8192"
  using set_handle_overwrites_unconditionally
    [of "Import_ctor 3" "5 :: handle_t" "\<lambda>a. Import_ctor (if a = 8 then 3 else 5)" 8 16
        "\<lambda>a. Import_ctor (if a = 8 then 4096 else 8192)"]
  by (simp add: Import_ctor_def Import_get_handle_def invalid_def invalid_symmetric_def)

end
